theory Spec2Isabelle
  imports Main
begin

section \<open>Configuration (settings.py)\<close>

datatype level = INFO | WARNING | ERROR

text \<open>The numeric values of Python's logging levels.\<close>

fun levelno :: "level \<Rightarrow> nat" where
  "levelno INFO = 20"
| "levelno WARNING = 30"
| "levelno ERROR = 40"

definition WEBSOCKET_IP :: string where
  "WEBSOCKET_IP = ''127.0.0.1''"

definition WEBSOCKET_PORT :: string where
  "WEBSOCKET_PORT = ''6000''"

definition OCPP_SUBPROTOCOLS :: "string list" where
  "OCPP_SUBPROTOCOLS = [''ocpp2.0.1'']"

definition LOG_LEVEL :: level where
  "LOG_LEVEL = INFO"

section \<open>The outside world: asyncio tasks and the logger\<close>

text \<open>
  Both programs act on objects they do not own: asyncio tasks, which they create with
  \<open>ensure_future\<close> and cancel with \<open>cancel()\<close>, and the logger. The world is a heap of
  tasks (a task handle is an index into it) and the trace of the calls made so far:
  every emitted log record and every \<open>cancel()\<close> call, in order.

  A task is pending until it finishes or is cancelled. \<open>cancel()\<close> on a task that is
  done does nothing; on a pending task it requests the cancellation, which the event loop
  delivers at the task's next suspension point. The request and its delivery are one
  step here.
\<close>

datatype task_state = Pending | Finished | Cancelled

datatype effect = Log level string | Cancel nat

record world =
  heap :: "task_state list"
  trace :: "effect list"

datatype exn =
    WebSocketException string
  | RuntimeError string
  | TimeoutError
  | AttributeError
  | KeyError string
  | MultipleValuesError string
  | OtherException string

text \<open>A record is emitted when its level reaches the configured \<open>LOG_LEVEL\<close>.\<close>

definition log :: "level \<Rightarrow> string \<Rightarrow> world \<Rightarrow> world" where
  "log lvl msg w =
     (if levelno LOG_LEVEL \<le> levelno lvl then w\<lparr>trace := trace w @ [Log lvl msg]\<rparr> else w)"

definition ensure_future :: "world \<Rightarrow> nat \<times> world" where
  "ensure_future w = (length (heap w), w\<lparr>heap := heap w @ [Pending]\<rparr>)"

fun cancel_state :: "task_state \<Rightarrow> task_state" where
  "cancel_state Pending = Cancelled"
| "cancel_state Finished = Finished"
| "cancel_state Cancelled = Cancelled"

definition task_cancel :: "nat \<Rightarrow> world \<Rightarrow> world" where
  "task_cancel t w =
     w\<lparr>heap := (if t < length (heap w) then (heap w)[t := cancel_state (heap w ! t)] else heap w),
       trace := trace w @ [Cancel t]\<rparr>"

section \<open>Python string operations used by the programs\<close>

text \<open>\<open>s.strip("/")\<close>: the slashes at both ends are removed.\<close>

definition strip_slash :: "string \<Rightarrow> string" where
  "strip_slash s =
     rev (dropWhile (\<lambda>c. c = CHR ''/'') (rev (dropWhile (\<lambda>c. c = CHR ''/'') s)))"

text \<open>
  \<open>str\<close> of a list of strings, as an f-string renders it: the \<open>repr\<close> of each element,
  separated by a comma and a space, in brackets. The \<open>repr\<close> of a string of printable
  characters is the string in single quotes (in double quotes when it holds a single
  quote and no double quote), the quote character and the backslash escaped.
\<close>

definition py_repr :: "string \<Rightarrow> string" where
  "py_repr s =
     (let q = (if CHR 0x27 \<in> set s \<and> CHR 0x22 \<notin> set s then CHR 0x22 else CHR 0x27)
      in [q] @ concat (map (\<lambda>c. if c = q \<or> c = CHR 0x5C then [CHR 0x5C, c] else [c]) s) @ [q])"

fun join :: "string \<Rightarrow> string list \<Rightarrow> string" where
  "join sep [] = []"
| "join sep [x] = x"
| "join sep (x # y # ys) = x @ sep @ join sep (y # ys)"

definition py_str_list :: "string list \<Rightarrow> string" where
  "py_str_list xs = ''['' @ join '', '' (map py_repr xs) @ '']''"

section \<open>The server (server.py)\<close>

definition USERNAME :: string where
  "USERNAME = ''test''"

definition PASSWORD :: string where
  "PASSWORD = ''123''"

subsection \<open>The CSMS handlers\<close>

datatype RegistrationStatusType = accepted | pending | rejected

record BootNotificationPayload =
  current_time :: string
  interval :: nat
  status :: RegistrationStatusType

datatype StatusNotificationPayload = StatusNotificationPayload

text \<open>The keyword arguments of a handler: the fields of the decoded request.\<close>

datatype pyval = PyNone | PyStr string | PyInt int | PyDict "(string \<times> pyval) list"

type_synonym kwargs = "(string \<times> pyval) list"

text \<open>
  \<open>on_boot_notification\<close> is a \<open>try\<close> block with two handlers. The body of the block
  assigns two constants; \<open>boot_try_body\<close> is that body, with the exception it raises on
  the left. \<open>boot_except\<close> is the \<open>try\<close> statement around any body: a \<open>RuntimeError\<close>
  gives (60, rejected), a \<open>TimeoutError\<close> gives (120, pending), any other exception
  leaves the handler. The argument \<open>now\<close> is \<open>datetime.utcnow().isoformat()\<close>.
\<close>

definition boot_try_body :: "kwargs \<Rightarrow> exn + nat \<times> RegistrationStatusType" where
  "boot_try_body kw = Inr (10, accepted)"

fun boot_except :: "exn + nat \<times> RegistrationStatusType \<Rightarrow> exn + nat \<times> RegistrationStatusType" where
  "boot_except (Inr r) = Inr r"
| "boot_except (Inl (RuntimeError m)) = Inr (60, rejected)"
| "boot_except (Inl TimeoutError) = Inr (120, pending)"
| "boot_except (Inl e) = Inl e"

definition on_boot_notification :: "string \<Rightarrow> kwargs \<Rightarrow> exn + BootNotificationPayload" where
  "on_boot_notification now kw =
     (case boot_except (boot_try_body kw) of
        Inl e \<Rightarrow> Inl e
      | Inr (i, s) \<Rightarrow> Inr \<lparr>current_time = now, interval = i, status = s\<rparr>)"


definition on_status_notification :: "kwargs \<Rightarrow> exn + StatusNotificationPayload" where
  "on_status_notification kw = Inr StatusNotificationPayload"

subsection \<open>The connection handler\<close>

text \<open>
  The request headers are the transport's \<open>Headers\<close> object: the header lines of the
  request, in order, a name possibly on several lines. \<open>headers[key]\<close> compares names
  without regard to case; it raises \<open>KeyError\<close> when no line has the name, returns the
  value when one line has it, and raises \<open>MultipleValuesError\<close> when several have it.
  \<open>MultipleValuesError\<close> is a \<open>LookupError\<close> and not a \<open>KeyError\<close>.
\<close>

definition ascii_uppercase :: string where
  "ascii_uppercase = ''ABCDEFGHIJKLMNOPQRSTUVWXYZ''"

definition ascii_lowercase :: string where
  "ascii_lowercase = ''abcdefghijklmnopqrstuvwxyz''"

definition lower :: "string \<Rightarrow> string" where
  "lower s =
     map (\<lambda>c. case map_of (zip ascii_uppercase ascii_lowercase) c of None \<Rightarrow> c | Some d \<Rightarrow> d) s"

definition getitem :: "(string \<times> string) list \<Rightarrow> string \<Rightarrow> exn + string" where
  "getitem headers key =
     (case map snd (filter (\<lambda>(k, v). lower k = lower key) headers) of
        [] \<Rightarrow> Inl (KeyError (lower key))
      | [v] \<Rightarrow> Inr v
      | v # v' # vs \<Rightarrow> Inl (MultipleValuesError key))"

text \<open>
  What \<open>worker\<close> reads of the connection the transport hands to it: the request
  headers, the subprotocol the transport selected during its handshake (\<open>None\<close> when it
  selected none) and the subprotocols the server was started with.
\<close>

record websocket =
  request_headers :: "(string \<times> string) list"
  subprotocol :: "string option"
  available_subprotocols :: "string list"

datatype CSMSServer = CSMSServer (id_of: string) (connection_of: websocket)

datatype HTTPStatus = BAD_REQUEST | UNAUTHORIZED | FORBIDDEN

fun status_value :: "HTTPStatus \<Rightarrow> nat" where
  "status_value BAD_REQUEST = 400"
| "status_value UNAUTHORIZED = 401"
| "status_value FORBIDDEN = 403"

type_synonym rejection = "HTTPStatus \<times> (string \<times> string) list \<times> string"

record Server =
  priv_task :: "nat option"
  csms_server :: "CSMSServer option"

definition Server_init :: Server where
  "Server_init = \<lparr>priv_task = None, csms_server = None\<rparr>"

definition reject_handshake :: "HTTPStatus \<Rightarrow> string \<Rightarrow> world \<Rightarrow> world \<times> rejection" where
  "reject_handshake http_status msg w =
     (log ERROR (msg @ '' - Connection closed.'') w, (http_status, [], msg))"

text \<open>Python's truth value of \<open>websocket.subprotocol\<close>: \<open>None\<close> and the empty string are false.\<close>

fun truthy :: "string option \<Rightarrow> bool" where
  "truthy None = False"
| "truthy (Some s) = (s \<noteq> [])"

text \<open>
  \<open>worker\<close> suspends once, at \<open>await self.csms_server.start()\<close>. \<open>worker_admit\<close> is the
  handler up to that point: it returns the rejection that \<open>worker\<close> returns, or the
  \<open>CSMSServer\<close> it has constructed and whose \<open>start()\<close> it awaits, or the exception
  that no \<open>except\<close> clause of \<open>worker\<close> catches. The two clauses around the first header
  read catch \<open>KeyError\<close> and \<open>AssertionError\<close>, the clause around the second catches
  \<open>KeyError\<close>. The expected
  Authorization header is computed by the transport library's
  \<open>build_authorization_basic\<close>, the first argument. The comparison is an \<open>assert\<close>
  statement, taken as executed (the interpreter's default).
\<close>

datatype admission = Rejected rejection | Admitted CSMSServer | Raised exn

definition worker_admit ::
  "(string \<Rightarrow> string \<Rightarrow> string) \<Rightarrow> Server \<Rightarrow> websocket \<Rightarrow> string \<Rightarrow> world
     \<Rightarrow> Server \<times> world \<times> admission" where
  "worker_admit build_authorization_basic srv ws path w =
     (case getitem (request_headers ws) ''Authorization'' of
        Inl (KeyError k) \<Rightarrow>
          (let (w', r) = reject_handshake UNAUTHORIZED ''Access denied.'' w
           in (srv, w', Rejected r))
      | Inl e \<Rightarrow> (srv, w, Raised e)
      | Inr auth_header \<Rightarrow>
          if auth_header \<noteq> build_authorization_basic USERNAME PASSWORD then
            (let (w', r) = reject_handshake FORBIDDEN ''Invalid Username/Password.'' w
             in (srv, w', Rejected r))
          else
            (case getitem (request_headers ws) ''Sec-WebSocket-Protocol'' of
               Inl (KeyError k) \<Rightarrow>
                 (let (w', r) = reject_handshake BAD_REQUEST ''Subprotocol missing.'' w
                  in (srv, w', Rejected r))
             | Inl e \<Rightarrow> (srv, w, Raised e)
             | Inr requested_protocols \<Rightarrow>
                 if truthy (subprotocol ws) then
                   (let w1 = log INFO (''Protocols Matched: '' @ the (subprotocol ws)) w;
                        charge_point_id = strip_slash path;
                        cp = CSMSServer charge_point_id ws
                    in (srv\<lparr>csms_server := Some cp\<rparr>, w1, Admitted cp))
                 else
                   (let msg = ''Protocols Mismatched, expected Subprotocols''
                              @ '' '' @ py_str_list (available_subprotocols ws)
                              @ '', but received '' @ requested_protocols @ ''.'';
                        (w', r) = reject_handshake BAD_REQUEST msg w
                    in (srv, w', Rejected r))))"

definition start_server :: "Server \<Rightarrow> world \<Rightarrow> Server \<times> world" where
  "start_server srv w = (let (t, w') = ensure_future w in (srv\<lparr>priv_task := Some t\<rparr>, w'))"

fun str_exn :: "exn \<Rightarrow> string" where
  "str_exn (WebSocketException m) = m"
| "str_exn (RuntimeError m) = m"
| "str_exn (OtherException m) = m"
| "str_exn e = []"

definition stop_server :: "Server \<Rightarrow> exn \<Rightarrow> world \<Rightarrow> world \<times> (exn + unit)" where
  "stop_server srv exception w =
     (case priv_task srv of
        None \<Rightarrow> (w, Inl AttributeError)
      | Some t \<Rightarrow>
          (let w1 = task_cancel t w in
           case csms_server srv of
             None \<Rightarrow> (w1, Inl AttributeError)
           | Some cp \<Rightarrow>
               (log WARNING (''Connection to charging point '' @ id_of cp @ '' closed: ''
                             @ str_exn exception) w1, Inr ())))"

text \<open>
  \<open>worker_resume\<close> is the handler from the point where \<open>start()\<close> has ended, with the
  server object as it is at that moment. \<open>start()\<close> ends by returning or by raising; a
  \<open>WebSocketException\<close> is handled by \<open>stop_server\<close>, any other exception leaves
  \<open>worker\<close>. On this path \<open>worker\<close> returns \<open>None\<close>.
\<close>

definition worker_resume ::
  "Server \<Rightarrow> world \<Rightarrow> exn + unit \<Rightarrow> Server \<times> world \<times> (exn + rejection option)" where
  "worker_resume srv w outcome =
     (case outcome of
        Inr u \<Rightarrow> (srv, w, Inr None)
      | Inl (WebSocketException m) \<Rightarrow>
          (case stop_server srv (WebSocketException m) w of
             (w', Inl e) \<Rightarrow> (srv, w', Inl e)
           | (w', Inr u) \<Rightarrow> (srv, w', Inr None))
      | Inl e \<Rightarrow> (srv, w, Inl e))"

text \<open>
  \<open>worker\<close> for one connection with nothing else running while it is suspended;
  \<open>start cp\<close> is how \<open>await cp.start()\<close> ends.
\<close>

definition worker ::
  "(string \<Rightarrow> string \<Rightarrow> string) \<Rightarrow> (CSMSServer \<Rightarrow> exn + unit) \<Rightarrow> Server \<Rightarrow> websocket \<Rightarrow> string
     \<Rightarrow> world \<Rightarrow> Server \<times> world \<times> (exn + rejection option)" where
  "worker build_authorization_basic start srv ws path w =
     (case worker_admit build_authorization_basic srv ws path w of
        (srv', w', Rejected r) \<Rightarrow> (srv', w', Inr (Some r))
      | (srv', w', Raised e) \<Rightarrow> (srv', w', Inl e)
      | (srv', w', Admitted cp) \<Rightarrow> worker_resume srv' w' (start cp))"

section \<open>The client (client.py)\<close>

subsection \<open>Messages and the connection\<close>

datatype ConnectorStatusType = available

datatype call_payload =
    call_BootNotificationPayload (charging_station: "(string \<times> string) list") (reason: string)
  | call_StatusNotificationPayload (timestamp: string) (connector_status: ConnectorStatusType)
      (evse_id: int) (connector_id: int)

datatype call_result =
    BootNotificationResult BootNotificationPayload
  | StatusNotificationResult StatusNotificationPayload

datatype connection = Connection (uri_of: string)

datatype CSMSClient = CSMSClient string connection

text \<open>
  What the client gets from outside: how opening the connection ends
  (\<open>websockets.connect\<close> entered by \<open>async with\<close>), how a call on that connection ends
  (\<open>ChargePoint.call\<close>, which returns the decoded result, returns \<open>None\<close>, or raises) and
  the clock. Leaving the \<open>async with\<close> block closes the connection and raises nothing.
\<close>

record client_env =
  connect :: "string \<Rightarrow> string list \<Rightarrow> exn + connection"
  call :: "call_payload \<Rightarrow> exn + call_result option"
  utcnow :: string

subsection \<open>CSMSClient\<close>

definition send_boot_notification :: "client_env \<Rightarrow> exn + call_result option" where
  "send_boot_notification env =
     (let boot_notification_request =
            call_BootNotificationPayload
              [(''model'', ''22KW EC Charge''), (''vendor_name'', ''EnBW'')] ''PowerUp''
      in call env boot_notification_request)"

definition send_status_notification :: "client_env \<Rightarrow> exn + call_result option" where
  "send_status_notification env =
     (let status_notification_request =
            call_StatusNotificationPayload (utcnow env) available 3 1001
      in call env status_notification_request)"

subsection \<open>Client\<close>

record Client =
  cp_id :: string
  priv_tasks :: "nat list"
  csms_client :: "CSMSClient option"

definition Client_init :: "string \<Rightarrow> Client" where
  "Client_init cp = \<lparr>cp_id = cp, priv_tasks = [], csms_client = None\<rparr>"

definition create_connection :: "client_env \<Rightarrow> Client \<Rightarrow> string \<Rightarrow> string \<Rightarrow> exn + connection" where
  "create_connection env c uname pwd =
     connect env
       (''ws://'' @ uname @ '':'' @ pwd @ ''@'' @ WEBSOCKET_IP @ '':'' @ WEBSOCKET_PORT
        @ ''/'' @ cp_id c)
       OCPP_SUBPROTOCOLS"

text \<open>
  \<open>make_handshake\<close> schedules \<open>self.csms_client.start()\<close>, the read loop, and registers
  the task. The attribute access fails on a client that has no \<open>csms_client\<close> yet.
\<close>

definition make_handshake :: "Client \<Rightarrow> world \<Rightarrow> Client \<times> world \<times> (exn + unit)" where
  "make_handshake c w =
     (case csms_client c of
        None \<Rightarrow> (c, w, Inl AttributeError)
      | Some cl \<Rightarrow>
          (let (t, w') = ensure_future w
           in (c\<lparr>priv_tasks := priv_tasks c @ [t]\<rparr>, w', Inr ())))"

definition handle_boot_notification_response ::
  "call_result option \<Rightarrow> world \<Rightarrow> world \<times> (exn + unit)" where
  "handle_boot_notification_response response w =
     (case response of
        None \<Rightarrow> (w, Inl (RuntimeError ''No response received with boot notification request.''))
      | Some (StatusNotificationResult p) \<Rightarrow> (w, Inl AttributeError)
      | Some (BootNotificationResult p) \<Rightarrow>
          if status p = accepted then (log INFO ''Boot notification acknowledged!'' w, Inr ())
          else if status p = pending then (log INFO ''Boot notification pending!'' w, Inr ())
          else if status p = rejected then (log WARNING ''Boot notification rejected!'' w, Inr ())
          else (w, Inr ()))"

definition finish_up :: "Client \<Rightarrow> world \<Rightarrow> world" where
  "finish_up c w = fold task_cancel (priv_tasks c) w"

text \<open>
  \<open>exchange_message\<close> schedules \<open>func()\<close> as a task, registers it and awaits it. The
  argument \<open>func\<close> is how that coroutine ends; when the await is over the task is done.
\<close>

definition exchange_message ::
  "(exn + 'a) \<Rightarrow> Client \<Rightarrow> world \<Rightarrow> Client \<times> world \<times> (exn + 'a)" where
  "exchange_message func c w =
     (let (func_task, w1) = ensure_future w;
          c1 = c\<lparr>priv_tasks := priv_tasks c @ [func_task]\<rparr>;
          w2 = w1\<lparr>heap := (heap w1)[func_task := Finished]\<rparr>
      in (c1, w2, func))"

text \<open>The body of the \<open>async with\<close> block of \<open>run\<close>, on the open connection \<open>con\<close>.\<close>

definition run_body ::
  "client_env \<Rightarrow> Client \<Rightarrow> world \<Rightarrow> connection \<Rightarrow> Client \<times> world \<times> (exn + unit)" where
  "run_body env c w con =
     (let c1 = c\<lparr>csms_client := Some (CSMSClient (cp_id c) con)\<rparr> in
      case make_handshake c1 w of
        (c2, w2, Inl e) \<Rightarrow> (c2, w2, Inl e)
      | (c2, w2, Inr u) \<Rightarrow>
          (case exchange_message (send_boot_notification env) c2 w2 of
             (c3, w3, Inl e) \<Rightarrow> (c3, w3, Inl e)
           | (c3, w3, Inr boot_notification_response) \<Rightarrow>
               (case handle_boot_notification_response boot_notification_response w3 of
                  (w4, Inl e) \<Rightarrow> (c3, w4, Inl e)
                | (w4, Inr u) \<Rightarrow>
                    (case exchange_message (send_status_notification env) c3 w4 of
                       (c5, w5, Inl e) \<Rightarrow> (c5, w5, Inl e)
                     | (c5, w5, Inr r) \<Rightarrow> (c5, w5, Inr ())))))"

text \<open>The \<open>try\<close> block of \<open>run\<close>: the connection is opened and the body runs on it.\<close>

definition run_try ::
  "client_env \<Rightarrow> Client \<Rightarrow> string \<Rightarrow> string \<Rightarrow> world \<Rightarrow> Client \<times> world \<times> (exn + unit)" where
  "run_try env c username password w =
     (case create_connection env c username password of
        Inl e \<Rightarrow> (c, w, Inl e)
      | Inr con \<Rightarrow> run_body env c w con)"

text \<open>The two \<open>except\<close> clauses of \<open>run\<close>; any other exception stays raised.\<close>

fun run_except :: "exn + unit \<Rightarrow> world \<Rightarrow> world \<times> (exn + unit)" where
  "run_except (Inl (WebSocketException m)) w =
     (log ERROR (''Connection refused from Server. Make sure you entered''
                 @ '' the correct credentials.'') w, Inr ())"
| "run_except (Inl (RuntimeError m)) w =
     (log ERROR ''Unknown error happened on server.'' w, Inr ())"
| "run_except r w = (w, r)"

text \<open>\<open>run\<close>: the \<open>try\<close> block, its handlers, and \<open>finish_up\<close> in the \<open>finally\<close> clause.\<close>

definition run ::
  "client_env \<Rightarrow> Client \<Rightarrow> string \<Rightarrow> string \<Rightarrow> world \<Rightarrow> Client \<times> world \<times> (exn + unit)" where
  "run env c username password w =
     (let (c1, w1, r) = run_try env c username password w;
          (w2, r2) = run_except r w1
      in (c1, finish_up c1 w2, r2))"

section \<open>Concrete inputs\<close>

text \<open>
  The Basic scheme of HTTP authentication, for concrete headers: the word Basic and the
  base64 encoding of \<open>username:password\<close>.
\<close>

definition b64_alphabet :: string where
  "b64_alphabet = ''ABCDEFGHIJKLMNOPQRSTUVWXYZabcdefghijklmnopqrstuvwxyz0123456789+/''"

fun b64encode :: "nat list \<Rightarrow> string" where
  "b64encode [] = []"
| "b64encode [a] =
     [b64_alphabet ! (a div 4), b64_alphabet ! (a mod 4 * 16), CHR ''='', CHR ''='']"
| "b64encode [a, b] =
     [b64_alphabet ! (a div 4), b64_alphabet ! (a mod 4 * 16 + b div 16),
      b64_alphabet ! (b mod 16 * 4), CHR ''='']"
| "b64encode (a # b # c # rest) =
     [b64_alphabet ! (a div 4), b64_alphabet ! (a mod 4 * 16 + b div 16),
      b64_alphabet ! (b mod 16 * 4 + c div 64), b64_alphabet ! (c mod 64)] @ b64encode rest"

definition basic_auth :: "string \<Rightarrow> string \<Rightarrow> string" where
  "basic_auth username password =
     ''Basic '' @ b64encode (map of_char (username @ '':'' @ password))"

definition mk_websocket :: "(string \<times> string) list \<Rightarrow> string option \<Rightarrow> websocket" where
  "mk_websocket hs sp =
     \<lparr>request_headers = hs, subprotocol = sp, available_subprotocols = OCPP_SUBPROTOCOLS\<rparr>"

definition world0 :: world where
  "world0 = \<lparr>heap = [], trace = []\<rparr>"

text \<open>A server that answers the boot notification with \<open>reply\<close> and acknowledges the rest.\<close>

definition env_replying :: "call_result option \<Rightarrow> client_env" where
  "env_replying reply =
     \<lparr>connect = (\<lambda>uri subprotocols. Inr (Connection uri)),
      call = (\<lambda>p. case p of
                call_BootNotificationPayload cs r \<Rightarrow> Inr reply
              | call_StatusNotificationPayload ts st e k \<Rightarrow>
                  Inr (Some (StatusNotificationResult StatusNotificationPayload))),
      utcnow = ''2026-11-04T09:41:00''\<rparr>"

text \<open>The requests used as concrete inputs below.\<close>

definition ws_valid :: websocket where
  "ws_valid = mk_websocket [(''Authorization'', basic_auth USERNAME PASSWORD),
                            (''Sec-WebSocket-Protocol'', ''ocpp1.6, ocpp2.0.1'')] (Some ''ocpp2.0.1'')"

definition ws_no_auth :: websocket where
  "ws_no_auth = mk_websocket [(''Sec-WebSocket-Protocol'', ''ocpp2.0.1'')] (Some ''ocpp2.0.1'')"

definition ws_bad_auth :: websocket where
  "ws_bad_auth = mk_websocket [(''Authorization'', basic_auth ''test'' ''456''),
                               (''Sec-WebSocket-Protocol'', ''ocpp2.0.1'')] (Some ''ocpp2.0.1'')"

text \<open>The request of \<open>ws_bad_auth\<close> with its Authorization line sent twice.\<close>

definition ws_bad_auth_twice :: websocket where
  "ws_bad_auth_twice = mk_websocket [(''Authorization'', basic_auth ''test'' ''456''),
                                     (''Authorization'', basic_auth ''test'' ''456''),
                                     (''Sec-WebSocket-Protocol'', ''ocpp2.0.1'')] (Some ''ocpp2.0.1'')"

text \<open>A request with two Authorization lines, neither for the configured pair.\<close>

definition ws_two_bad_auth :: websocket where
  "ws_two_bad_auth = mk_websocket [(''Authorization'', basic_auth ''test'' ''456''),
                                   (''authorization'', basic_auth ''guest'' ''guest''),
                                   (''Sec-WebSocket-Protocol'', ''ocpp2.0.1'')] (Some ''ocpp2.0.1'')"

text \<open>
  The request of \<open>ws_valid\<close> with its subprotocols on two Sec-WebSocket-Protocol lines;
  \<open>sp\<close> is what the transport selected.
\<close>

definition ws_protocol_lines :: "string option \<Rightarrow> websocket" where
  "ws_protocol_lines sp = mk_websocket [(''Authorization'', basic_auth USERNAME PASSWORD),
                                        (''Sec-WebSocket-Protocol'', ''ocpp1.6''),
                                        (''Sec-WebSocket-Protocol'', ''ocpp2.0.1'')] sp"

text \<open>A server on which every call raises \<open>e\<close>.\<close>

definition env_raising :: "exn \<Rightarrow> client_env" where
  "env_raising e =
     \<lparr>connect = (\<lambda>uri subprotocols. Inr (Connection uri)),
      call = (\<lambda>p. Inl e),
      utcnow = ''2026-11-04T09:41:00''\<rparr>"

section \<open>What a stretch of the client's session does to the world\<close>

text \<open>
  \<open>session_step c w c' w'\<close>: from \<open>(c, w)\<close> to \<open>(c', w')\<close> the tasks created are exactly
  the tasks appended to the client's list, the tasks that existed keep their state, and
  the trace grows by log records only.
\<close>

definition session_step :: "Client \<Rightarrow> world \<Rightarrow> Client \<Rightarrow> world \<Rightarrow> bool" where
  "session_step c w c' w' \<longleftrightarrow>
     priv_tasks c' = priv_tasks c @ [length (heap w) ..< length (heap w')] \<and>
     length (heap w) \<le> length (heap w') \<and>
     take (length (heap w)) (heap w') = heap w \<and>
     (\<exists>logs. trace w' = trace w @ map (\<lambda>(l, m). Log l m) logs)"


section \<open>Auxiliary facts\<close>

lemma trace_log: "trace (log lvl msg w) = trace w @ [Log lvl msg]"
  by (cases lvl) (simp_all add: log_def LOG_LEVEL_def)

lemma heap_log: "heap (log lvl msg w) = heap w"
  by (simp add: log_def)

lemma trace_fold_cancel: "trace (fold task_cancel ts w) = trace w @ map Cancel ts"
  by (induction ts arbitrary: w) (simp_all add: task_cancel_def)

lemma length_heap_fold_cancel: "length (heap (fold task_cancel ts w)) = length (heap w)"
  by (induction ts arbitrary: w) (simp_all add: task_cancel_def)

lemma cancel_state_idem: "cancel_state (cancel_state s) = cancel_state s"
  by (cases s) simp_all

lemma heap_task_cancel_nth:
  "i < length (heap w) \<Longrightarrow>
   heap (task_cancel t w) ! i = (if i = t then cancel_state (heap w ! i) else heap w ! i)"
  by (simp add: task_cancel_def nth_list_update)

lemma length_heap_task_cancel: "length (heap (task_cancel t w)) = length (heap w)"
  by (simp add: task_cancel_def)

lemma heap_fold_cancel_nth:
  "i < length (heap w) \<Longrightarrow>
   heap (fold task_cancel ts w) ! i
     = (if i \<in> set ts then cancel_state (heap w ! i) else heap w ! i)"
proof (induction ts arbitrary: w)
  case Nil
  then show ?case by simp
next
  case (Cons t ts)
  from Cons.prems have "i < length (heap (task_cancel t w))"
    by (simp add: length_heap_task_cancel)
  from Cons.IH[OF this] Cons.prems show ?case
    by (simp add: heap_task_cancel_nth cancel_state_idem)
qed

lemma heap_finish_up_twice: "heap (finish_up c (finish_up c w)) = heap (finish_up c w)"
  unfolding finish_up_def
  by (rule nth_equalityI)
     (simp_all add: length_heap_fold_cancel heap_fold_cancel_nth cancel_state_idem)



lemma upt_append_upt: "a \<le> b \<Longrightarrow> b \<le> c \<Longrightarrow> [a ..< b] @ [b ..< c] = [a ..< (c::nat)]"
  using upt_add_eq_append[of a b "c - b"] by simp

lemma session_step_refl: "session_step c w c w"
  unfolding session_step_def by (simp add: exI[of _ "[]"])

lemma session_step_trans:
  assumes "session_step c w c1 w1" and "session_step c1 w1 c2 w2"
  shows "session_step c w c2 w2"
proof -
  from assms obtain l1 l2 where
    t: "trace w1 = trace w @ map (\<lambda>(l, m). Log l m) l1"
       "trace w2 = trace w1 @ map (\<lambda>(l, m). Log l m) l2"
    unfolding session_step_def by blast
  then have "trace w2 = trace w @ map (\<lambda>(l, m). Log l m) (l1 @ l2)" by simp
  then have tr: "\<exists>logs. trace w2 = trace w @ map (\<lambda>(l, m). Log l m) logs" by blast
  from assms have len: "length (heap w) \<le> length (heap w1)" "length (heap w1) \<le> length (heap w2)"
    unfolding session_step_def by simp_all
  from assms have tk: "take (length (heap w)) (heap w1) = heap w"
       "take (length (heap w1)) (heap w2) = heap w1"
    unfolding session_step_def by simp_all
  have "take (length (heap w)) (heap w2) = take (length (heap w)) (take (length (heap w1)) (heap w2))"
    using len by (simp add: min_def)
  with tk have tk2: "take (length (heap w)) (heap w2) = heap w" by simp
  from assms have "priv_tasks c2 = priv_tasks c @ [length (heap w) ..< length (heap w1)]
      @ [length (heap w1) ..< length (heap w2)]"
    unfolding session_step_def by simp
  with len have "priv_tasks c2 = priv_tasks c @ [length (heap w) ..< length (heap w2)]"
    by (simp add: upt_append_upt)
  with len tk2 tr show ?thesis unfolding session_step_def by simp
qed

lemma session_step_log: "session_step c w c (log lvl msg w)"
  unfolding session_step_def
  by (simp add: heap_log trace_log exI[of _ "[(lvl, msg)]"])

lemma session_step_csms_client: "session_step c w (c\<lparr>csms_client := x\<rparr>) w"
  unfolding session_step_def by (simp add: exI[of _ "[]"])

lemma make_handshake_step:
  "make_handshake c w = (c', w', r) \<Longrightarrow> session_step c w c' w'"
  unfolding session_step_def
  by (auto simp: make_handshake_def ensure_future_def exI[of _ "[]"] split: option.splits)

lemma exchange_message_step:
  "exchange_message func c w = (c', w', r) \<Longrightarrow> session_step c w c' w'"
  unfolding session_step_def
  by (auto simp: exchange_message_def ensure_future_def exI[of _ "[]"])

lemma handle_boot_notification_response_step:
  "handle_boot_notification_response resp w = (w', r) \<Longrightarrow> session_step c w c w'"
  by (auto simp: handle_boot_notification_response_def session_step_refl session_step_log
      split: option.splits call_result.splits if_splits)

lemma run_body_step:
  assumes "run_body env c w con = (c', w', r)"
  shows "session_step c w c' w'"
proof -
  let ?c1 = "c\<lparr>csms_client := Some (CSMSClient (cp_id c) con)\<rparr>"
  obtain c2 w2 r2 where mh: "make_handshake ?c1 w = (c2, w2, r2)"
    by (cases "make_handshake ?c1 w") auto
  have s2: "session_step c w c2 w2"
    using session_step_trans[OF session_step_csms_client make_handshake_step[OF mh]] .
  show ?thesis
  proof (cases r2)
    case (Inl e)
    with mh assms s2 show ?thesis by (simp add: run_body_def)
  next
    case (Inr u)
    obtain c3 w3 r3 where em: "exchange_message (send_boot_notification env) c2 w2 = (c3, w3, r3)"
      by (cases "exchange_message (send_boot_notification env) c2 w2") auto
    have s3: "session_step c w c3 w3"
      using session_step_trans[OF s2 exchange_message_step[OF em]] .
    show ?thesis
    proof (cases r3)
      case (Inl e)
      with mh Inr em assms s3 show ?thesis by (simp add: run_body_def)
    next
      case resp: (Inr response)
      obtain w4 r4 where hb: "handle_boot_notification_response response w3 = (w4, r4)"
        by (cases "handle_boot_notification_response response w3") auto
      have s4: "session_step c w c3 w4"
        using session_step_trans[OF s3 handle_boot_notification_response_step[OF hb]] .
      show ?thesis
      proof (cases r4)
        case (Inl e)
        with mh Inr em resp hb assms s4 show ?thesis by (simp add: run_body_def)
      next
        case ok: (Inr u')
        obtain c5 w5 r5 where
          em2: "exchange_message (send_status_notification env) c3 w4 = (c5, w5, r5)"
          by (cases "exchange_message (send_status_notification env) c3 w4") auto
        have s5: "session_step c w c5 w5"
          using session_step_trans[OF s4 exchange_message_step[OF em2]] .
        with mh Inr em resp hb ok em2 assms show ?thesis
          by (cases r5) (simp_all add: run_body_def)
      qed
    qed
  qed
qed

lemma run_try_step:
  "run_try env c username password w = (c', w', r) \<Longrightarrow> session_step c w c' w'"
  by (auto simp: run_try_def session_step_refl run_body_step split: sum.splits)

lemma run_except_step: "run_except r w = (w', r') \<Longrightarrow> session_step c w c w'"
  by (cases "(r, w)" rule: run_except.cases) (auto simp: session_step_refl session_step_log)

lemma basic_auth_test_123: "basic_auth USERNAME PASSWORD = ''Basic dGVzdDoxMjM=''"
  by (simp add: basic_auth_def USERNAME_def PASSWORD_def b64_alphabet_def)

lemma basic_auth_test_456: "basic_auth ''test'' ''456'' = ''Basic dGVzdDo0NTY=''"
  by (simp add: basic_auth_def b64_alphabet_def)

lemma basic_auth_guest: "basic_auth ''guest'' ''guest'' = ''Basic Z3Vlc3Q6Z3Vlc3Q=''"
  by (simp add: basic_auth_def b64_alphabet_def)

lemma lower_names:
  "lower ''Authorization'' = ''authorization''"
  "lower ''authorization'' = ''authorization''"
  "lower ''Sec-WebSocket-Protocol'' = ''sec-websocket-protocol''"
  by (simp_all add: lower_def ascii_uppercase_def ascii_lowercase_def)

section \<open>The connection handler\<close>

text \<open>
  Claim C1 does not hold of \<open>worker\<close>. A request whose one Authorization line is not for
  the configured pair is rejected with (403, "Invalid Username/Password."), as the claim
  says. The same request with that line sent twice is not: the header read raises
  \<open>MultipleValuesError\<close>, which neither \<open>except\<close> clause catches, and \<open>worker\<close> raises it
  without a rejection and without a log record.
\<close>

theorem repeated_authorization_not_rejected:
  "worker basic_auth start Server_init ws_bad_auth ''/CP_01'' world0
     = (Server_init,
        \<lparr>heap = [], trace = [Log ERROR ''Invalid Username/Password. - Connection closed.'']\<rparr>,
        Inr (Some (FORBIDDEN, [], ''Invalid Username/Password.''))) \<and>
   worker basic_auth start Server_init ws_bad_auth_twice ''/CP_01'' world0
     = (Server_init, world0, Inl (MultipleValuesError ''Authorization''))"
  by (simp add: worker_def worker_admit_def getitem_def lower_names ws_bad_auth_def
      ws_bad_auth_twice_def mk_websocket_def basic_auth_test_123 basic_auth_test_456
      reject_handshake_def log_def LOG_LEVEL_def world0_def)

text \<open>
  Claim C2 does not hold of \<open>worker\<close>. A request with the right credentials that asks for
  ocpp1.6 and ocpp2.0.1 on one Sec-WebSocket-Protocol line, of which the transport
  selected ocpp2.0.1, is admitted. With the two subprotocols on two lines, \<open>worker\<close>
  neither admits nor rejects with 400, whatever the transport selected: the header read
  raises \<open>MultipleValuesError\<close>, which the \<open>except KeyError\<close> clause does not catch.
\<close>

theorem repeated_protocol_header_not_negotiated:
  "worker_admit basic_auth Server_init ws_valid ''/CP_01'' world0
     = (Server_init\<lparr>csms_server := Some (CSMSServer ''CP_01'' ws_valid)\<rparr>,
        \<lparr>heap = [], trace = [Log INFO ''Protocols Matched: ocpp2.0.1'']\<rparr>,
        Admitted (CSMSServer ''CP_01'' ws_valid)) \<and>
   worker basic_auth start Server_init (ws_protocol_lines sp) ''/CP_01'' world0
     = (Server_init, world0, Inl (MultipleValuesError ''Sec-WebSocket-Protocol''))"
proof -
  have hs: "request_headers ws_valid
      = [(''Authorization'', basic_auth USERNAME PASSWORD),
         (''Sec-WebSocket-Protocol'', ''ocpp1.6, ocpp2.0.1'')]"
    "subprotocol ws_valid = Some ''ocpp2.0.1''"
    by (simp_all add: ws_valid_def mk_websocket_def)
  have adm: "worker_admit basic_auth Server_init ws_valid ''/CP_01'' world0
     = (Server_init\<lparr>csms_server := Some (CSMSServer ''CP_01'' ws_valid)\<rparr>,
        \<lparr>heap = [], trace = [Log INFO ''Protocols Matched: ocpp2.0.1'']\<rparr>,
        Admitted (CSMSServer ''CP_01'' ws_valid))"
    by (simp add: worker_admit_def hs getitem_def lower_names basic_auth_test_123
        strip_slash_def log_def LOG_LEVEL_def world0_def Let_def)
  have rs: "worker basic_auth start Server_init (ws_protocol_lines sp) ''/CP_01'' world0
     = (Server_init, world0, Inl (MultipleValuesError ''Sec-WebSocket-Protocol''))"
    by (simp add: worker_def worker_admit_def getitem_def lower_names ws_protocol_lines_def
        mk_websocket_def basic_auth_test_123)
  from adm rs show ?thesis by simp
qed

text \<open>
  Claim C3 does not hold of \<open>worker\<close>. A request with no Authorization line is rejected
  with 401 and no \<open>CSMSServer\<close> is constructed. A request with two Authorization lines,
  neither for the configured pair, gets no rejection: \<open>worker\<close> raises
  \<open>MultipleValuesError\<close>. No \<open>CSMSServer\<close> is constructed on that path either, however
  \<open>start()\<close> would end.
\<close>

theorem two_bad_credentials_not_rejected:
  "worker basic_auth start Server_init ws_no_auth ''/CP_01'' world0
     = (Server_init,
        \<lparr>heap = [], trace = [Log ERROR ''Access denied. - Connection closed.'']\<rparr>,
        Inr (Some (UNAUTHORIZED, [], ''Access denied.''))) \<and>
   status_value UNAUTHORIZED = 401 \<and>
   worker basic_auth start Server_init ws_two_bad_auth ''/CP_01'' world0
     = (Server_init, world0, Inl (MultipleValuesError ''Authorization'')) \<and>
   csms_server Server_init = None"
  by (simp add: worker_def worker_admit_def getitem_def lower_names ws_no_auth_def
      ws_two_bad_auth_def mk_websocket_def basic_auth_test_123 basic_auth_test_456
      basic_auth_guest reject_handshake_def log_def LOG_LEVEL_def world0_def Server_init_def)

section \<open>The client's session\<close>

text \<open>
  Claim C4. Every run of \<open>run\<close>, however the connection and the calls end and whether
  \<open>run\<close> returns or lets an exception through, ends with one \<open>finish_up\<close>: the tasks
  created during the run are exactly the tasks the run registers, the trace of the run is
  log records followed by one \<open>cancel()\<close> for each registered task, in order, and after
  the run no task created by it is pending. A task that existed before is cancelled if
  the client had it registered and is untouched otherwise.
\<close>

theorem run_cancels_every_task_once:
  "case run env c username password w of
     (c', w', r) \<Rightarrow>
       priv_tasks c' = priv_tasks c @ [length (heap w) ..< length (heap w')] \<and>
       (\<exists>logs. trace w' = trace w @ map (\<lambda>(l, m). Log l m) logs @ map Cancel (priv_tasks c')) \<and>
       (\<forall>t. length (heap w) \<le> t \<and> t < length (heap w') \<longrightarrow> heap w' ! t \<noteq> Pending) \<and>
       (\<forall>t < length (heap w).
          heap w' ! t = (if t \<in> set (priv_tasks c) then cancel_state (heap w ! t) else heap w ! t))"
proof -
  obtain c1 w1 r1 where rt: "run_try env c username password w = (c1, w1, r1)"
    by (cases "run_try env c username password w") auto
  obtain w2 r2 where re: "run_except r1 w1 = (w2, r2)"
    by (cases "run_except r1 w1") auto
  have st: "session_step c w c1 w2"
    using session_step_trans[OF run_try_step[OF rt] run_except_step[OF re]] .
  have run: "run env c username password w = (c1, finish_up c1 w2, r2)"
    using rt re by (simp add: run_def)
  from st have tasks: "priv_tasks c1 = priv_tasks c @ [length (heap w) ..< length (heap w2)]"
    and len: "length (heap w) \<le> length (heap w2)"
    and tk: "take (length (heap w)) (heap w2) = heap w"
    and tr: "\<exists>logs. trace w2 = trace w @ map (\<lambda>(l, m). Log l m) logs"
    unfolding session_step_def by simp_all
  have lenf: "length (heap (finish_up c1 w2)) = length (heap w2)"
    by (simp add: finish_up_def length_heap_fold_cancel)
  have nth: "\<And>t. t < length (heap w2) \<Longrightarrow> heap (finish_up c1 w2) ! t
      = (if t \<in> set (priv_tasks c1) then cancel_state (heap w2 ! t) else heap w2 ! t)"
    unfolding finish_up_def by (rule heap_fold_cancel_nth)
  have a: "priv_tasks c1 = priv_tasks c @ [length (heap w) ..< length (heap (finish_up c1 w2))]"
    using tasks lenf by simp
  from tr have b: "\<exists>logs. trace (finish_up c1 w2)
      = trace w @ map (\<lambda>(l, m). Log l m) logs @ map Cancel (priv_tasks c1)"
    by (auto simp: finish_up_def trace_fold_cancel)
  have c: "\<forall>t. length (heap w) \<le> t \<and> t < length (heap (finish_up c1 w2))
      \<longrightarrow> heap (finish_up c1 w2) ! t \<noteq> Pending"
  proof (intro allI impI)
    fix t assume t: "length (heap w) \<le> t \<and> t < length (heap (finish_up c1 w2))"
    with lenf have lt: "t < length (heap w2)" by simp
    from t lt tasks have "t \<in> set (priv_tasks c1)" by simp
    with nth[OF lt] have "heap (finish_up c1 w2) ! t = cancel_state (heap w2 ! t)" by simp
    then show "heap (finish_up c1 w2) ! t \<noteq> Pending"
      by (cases "heap w2 ! t") simp_all
  qed
  have d: "\<forall>t < length (heap w). heap (finish_up c1 w2) ! t
      = (if t \<in> set (priv_tasks c) then cancel_state (heap w ! t) else heap w ! t)"
  proof (intro allI impI)
    fix t assume t: "t < length (heap w)"
    with len have lt: "t < length (heap w2)" by simp
    from tk t have same: "heap w2 ! t = heap w ! t" by (metis nth_take)
    from t tasks have "t \<in> set (priv_tasks c1) \<longleftrightarrow> t \<in> set (priv_tasks c)" by auto
    with nth[OF lt] same
    show "heap (finish_up c1 w2) ! t
      = (if t \<in> set (priv_tasks c) then cancel_state (heap w ! t) else heap w ! t)" by simp
  qed
  from a b c d run show ?thesis by simp
qed

theorem run_cancels_every_task_once_witness:
  "run (env_replying (Some (BootNotificationResult
          \<lparr>current_time = ''2026-11-04T09:41:00'', interval = 10, status = accepted\<rparr>)))
       (Client_init ''CP_01'') ''test'' ''123'' world0
     = (\<lparr>cp_id = ''CP_01'', priv_tasks = [0, 1, 2],
         csms_client = Some (CSMSClient ''CP_01'' (Connection ''ws://test:123@127.0.0.1:6000/CP_01''))\<rparr>,
        \<lparr>heap = [Cancelled, Finished, Finished],
         trace = [Log INFO ''Boot notification acknowledged!'', Cancel 0, Cancel 1, Cancel 2]\<rparr>,
        Inr ()) \<and>
   run (env_raising (WebSocketException ''connection closed''))
       (Client_init ''CP_01'') ''test'' ''123'' world0
     = (\<lparr>cp_id = ''CP_01'', priv_tasks = [0, 1],
         csms_client = Some (CSMSClient ''CP_01'' (Connection ''ws://test:123@127.0.0.1:6000/CP_01''))\<rparr>,
        \<lparr>heap = [Cancelled, Finished],
         trace = [Log ERROR (''Connection refused from Server. Make sure you entered''
                             @ '' the correct credentials.''), Cancel 0, Cancel 1]\<rparr>,
        Inr ()) \<and>
   run (env_raising (OtherException ''asyncio.TimeoutError''))
       (Client_init ''CP_01'') ''test'' ''123'' world0
     = (\<lparr>cp_id = ''CP_01'', priv_tasks = [0, 1],
         csms_client = Some (CSMSClient ''CP_01'' (Connection ''ws://test:123@127.0.0.1:6000/CP_01''))\<rparr>,
        \<lparr>heap = [Cancelled, Finished], trace = [Cancel 0, Cancel 1]\<rparr>,
        Inl (OtherException ''asyncio.TimeoutError''))"
  using
    run_cancels_every_task_once[where
      env = "env_replying (Some (BootNotificationResult
          \<lparr>current_time = ''2026-11-04T09:41:00'', interval = 10, status = accepted\<rparr>))"
      and c = "Client_init ''CP_01''" and username = "''test''" and password = "''123''" and w = world0]
    run_cancels_every_task_once[where
      env = "env_raising (WebSocketException ''connection closed'')"
      and c = "Client_init ''CP_01''" and username = "''test''" and password = "''123''" and w = world0]
    run_cancels_every_task_once[where
      env = "env_raising (OtherException ''asyncio.TimeoutError'')"
      and c = "Client_init ''CP_01''" and username = "''test''" and password = "''123''" and w = world0]
  by (simp add: env_replying_def env_raising_def create_connection_def send_boot_notification_def
      send_status_notification_def WEBSOCKET_IP_def WEBSOCKET_PORT_def world0_def
      handle_boot_notification_response_def log_def LOG_LEVEL_def run_def run_try_def
      run_body_def make_handshake_def exchange_message_def ensure_future_def Client_init_def
      finish_up_def task_cancel_def)

text \<open>
  Claim C5. \<open>handle_boot_notification_response\<close> raises a \<open>RuntimeError\<close> of its own
  when the response is \<open>None\<close>; for a boot notification result it emits exactly one log
  record, chosen by the status: "acknowledged" at level INFO for accepted, "pending"
  at level INFO for pending, "rejected" at level WARNING for rejected. When the boot
  notification call returns \<open>None\<close>, \<open>run\<close> logs "Unknown error happened on server." and
  only then cancels its two tasks, and returns.
\<close>

theorem boot_response_handling:
  "handle_boot_notification_response None w
     = (w, Inl (RuntimeError ''No response received with boot notification request.'')) \<and>
   handle_boot_notification_response (Some (BootNotificationResult p)) w
     = (case status p of
          accepted \<Rightarrow> (w\<lparr>trace := trace w @ [Log INFO ''Boot notification acknowledged!'']\<rparr>, Inr ())
        | pending \<Rightarrow> (w\<lparr>trace := trace w @ [Log INFO ''Boot notification pending!'']\<rparr>, Inr ())
        | rejected \<Rightarrow> (w\<lparr>trace := trace w @ [Log WARNING ''Boot notification rejected!'']\<rparr>, Inr ())) \<and>
   (create_connection env (Client_init cp) username password = Inr con \<and>
    send_boot_notification env = Inr None \<longrightarrow>
      (case run env (Client_init cp) username password w of
         (c', w', r) \<Rightarrow>
           r = Inr () \<and>
           trace w' = trace w @ [Log ERROR ''Unknown error happened on server.'',
                                 Cancel (length (heap w)), Cancel (Suc (length (heap w)))]))"
  by (cases "status p")
     (simp_all add: handle_boot_notification_response_def log_def LOG_LEVEL_def run_def run_try_def
        run_body_def make_handshake_def exchange_message_def ensure_future_def Client_init_def
        finish_up_def task_cancel_def)

theorem boot_response_handling_witness:
  "create_connection (env_replying None) (Client_init ''CP_01'') ''test'' ''123''
     = Inr (Connection ''ws://test:123@127.0.0.1:6000/CP_01'') \<and>
   send_boot_notification (env_replying None) = Inr None \<and>
   run (env_replying None) (Client_init ''CP_01'') ''test'' ''123'' world0
     = (\<lparr>cp_id = ''CP_01'', priv_tasks = [0, 1],
         csms_client = Some (CSMSClient ''CP_01'' (Connection ''ws://test:123@127.0.0.1:6000/CP_01''))\<rparr>,
        \<lparr>heap = [Cancelled, Finished],
         trace = [Log ERROR ''Unknown error happened on server.'', Cancel 0, Cancel 1]\<rparr>,
        Inr ())"
  using boot_response_handling[where w = world0 and env = "env_replying None"
      and cp = "''CP_01''" and username = "''test''" and password = "''123''"
      and con = "Connection ''ws://test:123@127.0.0.1:6000/CP_01''"]
  by (simp add: env_replying_def create_connection_def send_boot_notification_def
      WEBSOCKET_IP_def WEBSOCKET_PORT_def world0_def
      handle_boot_notification_response_def log_def LOG_LEVEL_def run_def run_try_def
        run_body_def make_handshake_def exchange_message_def ensure_future_def Client_init_def
        finish_up_def task_cancel_def)

text \<open>
  Claim C8. \<open>finish_up\<close> twice leaves every task in the state that \<open>finish_up\<close> once
  leaves it in. A registered task that is pending at the first \<open>finish_up\<close> is cancelled
  by it and is still cancelled after the second; a task that is done keeps its state.
  \<open>finish_up\<close> logs nothing and raises nothing: the trace grows by the \<open>cancel()\<close> calls
  of the two rounds.
\<close>

theorem finish_up_idempotent:
  "heap (finish_up c (finish_up c w)) = heap (finish_up c w) \<and>
   (\<forall>t \<in> set (priv_tasks c). t < length (heap w) \<and> heap w ! t = Pending \<longrightarrow>
      heap (finish_up c w) ! t = Cancelled \<and>
      heap (finish_up c (finish_up c w)) ! t = Cancelled) \<and>
   (\<forall>t < length (heap w). heap w ! t \<noteq> Pending \<longrightarrow>
      heap (finish_up c (finish_up c w)) ! t = heap w ! t) \<and>
   trace (finish_up c (finish_up c w))
     = trace w @ map Cancel (priv_tasks c) @ map Cancel (priv_tasks c)"
proof -
  have tw: "heap (finish_up c (finish_up c w)) = heap (finish_up c w)"
    by (rule heap_finish_up_twice)
  have nth: "\<And>t. t < length (heap w) \<Longrightarrow> heap (finish_up c w) ! t
      = (if t \<in> set (priv_tasks c) then cancel_state (heap w ! t) else heap w ! t)"
    unfolding finish_up_def by (rule heap_fold_cancel_nth)
  have a: "\<forall>t \<in> set (priv_tasks c). t < length (heap w) \<and> heap w ! t = Pending \<longrightarrow>
      heap (finish_up c w) ! t = Cancelled \<and>
      heap (finish_up c (finish_up c w)) ! t = Cancelled"
    using nth tw by simp
  have b: "\<forall>t < length (heap w). heap w ! t \<noteq> Pending \<longrightarrow>
      heap (finish_up c (finish_up c w)) ! t = heap w ! t"
  proof (intro allI impI)
    fix t assume t: "t < length (heap w)" and np: "heap w ! t \<noteq> Pending"
    from np have "cancel_state (heap w ! t) = heap w ! t"
      by (cases "heap w ! t") simp_all
    with nth[OF t] tw show "heap (finish_up c (finish_up c w)) ! t = heap w ! t" by simp
  qed
  have c: "trace (finish_up c (finish_up c w))
     = trace w @ map Cancel (priv_tasks c) @ map Cancel (priv_tasks c)"
    by (simp add: finish_up_def trace_fold_cancel)
  from tw a b c show ?thesis by blast
qed

theorem finish_up_idempotent_witness:
  "finish_up \<lparr>cp_id = ''CP_01'', priv_tasks = [0, 1], csms_client = None\<rparr>
      \<lparr>heap = [Pending, Finished], trace = []\<rparr>
     = \<lparr>heap = [Cancelled, Finished], trace = [Cancel 0, Cancel 1]\<rparr> \<and>
   heap (finish_up \<lparr>cp_id = ''CP_01'', priv_tasks = [0, 1], csms_client = None\<rparr>
      (finish_up \<lparr>cp_id = ''CP_01'', priv_tasks = [0, 1], csms_client = None\<rparr>
         \<lparr>heap = [Pending, Finished], trace = []\<rparr>))
     = [Cancelled, Finished]"
  using finish_up_idempotent[of "\<lparr>cp_id = ''CP_01'', priv_tasks = [0, 1], csms_client = None\<rparr>"
      "\<lparr>heap = [Pending, Finished], trace = []\<rparr>"]
  by (simp add: finish_up_def task_cancel_def)

section \<open>The CSMS handlers\<close>


text \<open>
  Claim C7. For any keyword arguments \<open>on_boot_notification\<close> returns status accepted
  with interval 10: the body of its \<open>try\<close> block raises nothing, so the \<open>try\<close> statement
  gives what the body gives and neither handler runs.
\<close>

theorem on_boot_notification_branches_unreachable:
  "(\<exists>p. on_boot_notification now kw = Inr p \<and> status p = accepted \<and> interval p = 10 \<and>
        status p \<noteq> rejected \<and> status p \<noteq> pending) \<and>
   (\<forall>e. boot_try_body kw \<noteq> Inl e) \<and>
   boot_except (boot_try_body kw) = boot_try_body kw"
  by (simp add: on_boot_notification_def boot_try_body_def)

text \<open>
  Claim C10. \<open>on_status_notification\<close> returns the empty acknowledgement for every
  request: it raises nothing and its result does not depend on the keyword arguments.
\<close>

theorem on_status_notification_unconditional:
  "on_status_notification kw = Inr StatusNotificationPayload \<and>
   on_status_notification kw = on_status_notification kw'"
  by (simp add: on_status_notification_def)

section \<open>Two connections on one server\<close>

text \<open>
  Claim C9 does not hold of \<open>worker\<close>. The server object has one \<open>csms_server\<close>
  attribute, which every admitted connection assigns. Station CP_01 is admitted, then
  station CP_02; when the connection of CP_01 closes, its \<open>worker\<close> resumes on the server
  object as the admission of CP_02 left it, and \<open>stop_server\<close> reports that the
  connection to CP_02 closed.
\<close>

theorem second_admission_overwrites_csms_server:
  "(let ws = ws_valid;
        (s0, w0) = start_server Server_init world0;
        (s1, w1, a1) = worker_admit basic_auth s0 ws ''/CP_01'' w0;
        (s2, w2, a2) = worker_admit basic_auth s1 ws ''/CP_02'' w1;
        (s3, w3, r) = worker_resume s2 w2 (Inl (WebSocketException ''no close frame received or sent''))
    in a1 = Admitted (CSMSServer ''CP_01'' ws) \<and>
       a2 = Admitted (CSMSServer ''CP_02'' ws) \<and>
       csms_server s1 = Some (CSMSServer ''CP_01'' ws) \<and>
       csms_server s2 = Some (CSMSServer ''CP_02'' ws) \<and>
       r = Inr None \<and>
       trace w3 = [Log INFO ''Protocols Matched: ocpp2.0.1'',
                   Log INFO ''Protocols Matched: ocpp2.0.1'',
                   Cancel 0,
                   Log WARNING ''Connection to charging point CP_02 closed: no close frame received or sent''])"
  by (simp add: ws_valid_def mk_websocket_def getitem_def lower_names basic_auth_test_123
      world0_def start_server_def ensure_future_def Server_init_def worker_admit_def worker_resume_def stop_server_def
      task_cancel_def log_def LOG_LEVEL_def strip_slash_def Let_def)

end
